theory Spec2Isabelle
  imports Main
begin

section \<open>Python values, exceptions and call stacks\<close>

text \<open>
  The guards of \<^verbatim>\<open>run_context.py\<close> and the policies of \<^verbatim>\<open>override_sklearn.py\<close> receive
  Python values through \<^verbatim>\<open>*args\<close> and \<^verbatim>\<open>**kwargs\<close>. Only the values the guards inspect
  are modelled: \<^verbatim>\<open>None\<close>, strings, integers and tuples.
\<close>

datatype pyval = PyNone | PyStr string | PyInt int | PyTuple "pyval list"

type_synonym kwargs = "string \<rightharpoonup> pyval"

text \<open>
  Exceptions are values. The first four are the classes imported from
  \<^verbatim>\<open>scientistgpt.run_gpt_code.exceptions\<close>; \<^verbatim>\<open>RuntimeWarning\<close>, \<^verbatim>\<open>IndexError\<close>,
  \<^verbatim>\<open>AttributeError\<close>, \<^verbatim>\<open>TypeError\<close> and \<^verbatim>\<open>RecursionError\<close> are Python built-ins; \<open>OtherError\<close> stands for
  whatever else a wrapped original operation raises.
\<close>

datatype exn =
    CodeWriteForbiddenFile pyval
  | CodeReadForbiddenFile pyval
  | CodeUsesForbiddenFunctions string
  | CodeImportForbiddenModule string
  | RuntimeWarning string
  | IndexError
  | AttributeError
  | TypeError
  | RecursionError
  | OtherError string

text \<open>One entry of \<^verbatim>\<open>traceback.extract_stack()\<close>: a \<^verbatim>\<open>FrameSummary\<close>.\<close>

record frame_summary =
  filename :: string
  lineno :: int

text \<open>Python's \<^verbatim>\<open>str.endswith\<close> and \<^verbatim>\<open>str.startswith\<close>.\<close>

definition endswith :: "string \<Rightarrow> string \<Rightarrow> bool" where
  "endswith s suffix =
     (length suffix \<le> length s \<and> drop (length s - length suffix) s = suffix)"

definition startswith :: "string \<Rightarrow> string \<Rightarrow> bool" where
  "startswith s prefix = (take (length prefix) s = prefix)"

text \<open>\<^verbatim>\<open>stack[-2]\<close>: the entry before the last one, \<^verbatim>\<open>IndexError\<close> on a shorter list.\<close>

definition index_neg2 :: "'a list \<Rightarrow> exn + 'a" where
  "index_neg2 xs =
     (if 2 \<le> length xs then Inr (xs ! (length xs - 2)) else Inl IndexError)"

section \<open>\<^verbatim>\<open>prevent_file_open\<close>: the intercepted open\<close>

text \<open>
  An operation with effects takes the world and returns its outcome with the new world.
  \<^verbatim>\<open>original_open\<close> is a parameter: any callable that was \<^verbatim>\<open>builtins.open\<close> on entry.
\<close>

type_synonym ('w, 'r) operation = "pyval list \<Rightarrow> kwargs \<Rightarrow> 'w \<Rightarrow> (exn + 'r) \<times> 'w"

text \<open>\<^verbatim>\<open>file_name = args[0] if len(args) > 0 else kwargs.get('file', None)\<close>\<close>

definition file_name_of :: "pyval list \<Rightarrow> kwargs \<Rightarrow> pyval" where
  "file_name_of args kwargs =
     (if length args > 0 then args ! 0
      else (case kwargs ''file'' of None \<Rightarrow> PyNone | Some v \<Rightarrow> v))"

text \<open>\<^verbatim>\<open>open_mode = args[1] if len(args) > 1 else kwargs.get('mode', 'r')\<close>\<close>

definition open_mode_of :: "pyval list \<Rightarrow> kwargs \<Rightarrow> pyval" where
  "open_mode_of args kwargs =
     (if length args > 1 then args ! 1
      else (case kwargs ''mode'' of None \<Rightarrow> PyStr ''r'' | Some v \<Rightarrow> v))"

text \<open>\<^verbatim>\<open>is_opening_for_writing = open_mode in ['w', 'a', 'x']\<close>\<close>

definition is_opening_for_writing :: "pyval list \<Rightarrow> kwargs \<Rightarrow> bool" where
  "is_opening_for_writing args kwargs =
     (open_mode_of args kwargs \<in> set [PyStr ''w'', PyStr ''a'', PyStr ''x''])"

text \<open>
  \<^verbatim>\<open>allowed_read_files\<close> and \<^verbatim>\<open>allowed_write_files\<close> are lists or \<^verbatim>\<open>None\<close>.
  The wrapper raises before it calls \<^verbatim>\<open>original_open\<close>, so a raise leaves the world as it was.
\<close>

definition open_wrapper ::
  "pyval list option \<Rightarrow> pyval list option \<Rightarrow> ('w, 'r) operation \<Rightarrow> ('w, 'r) operation" where
  "open_wrapper allowed_read_files allowed_write_files original_open args kwargs w =
     (let file_name = file_name_of args kwargs;
          writing = is_opening_for_writing args kwargs
      in if writing \<and> allowed_write_files \<noteq> None
            \<and> file_name \<notin> set (the allowed_write_files)
         then (Inl (CodeWriteForbiddenFile file_name), w)
         else if \<not> writing \<and> allowed_read_files \<noteq> None
            \<and> file_name \<notin> set (the allowed_read_files)
         then (Inl (CodeReadForbiddenFile file_name), w)
         else original_open args kwargs w)"

section \<open>\<^verbatim>\<open>prevent_calling\<close>: the wrapper of a forbidden function\<close>

text \<open>
  \<open>stack\<close> is the value of \<^verbatim>\<open>traceback.extract_stack()\<close> inside \<^verbatim>\<open>upon_called\<close>: its last
  entry is the frame of \<^verbatim>\<open>upon_called\<close> itself, the one before it the caller's.
  \<^verbatim>\<open>module_filename\<close> is imported from \<^verbatim>\<open>dynamic_code\<close>, which is not part of the sources
  at hand: it is a parameter.
\<close>

definition upon_called ::
  "string \<Rightarrow> string \<Rightarrow> ('w, 'r) operation \<Rightarrow> frame_summary list \<Rightarrow> ('w, 'r) operation" where
  "upon_called module_filename func_name original_func stack args kwargs w =
     (case index_neg2 stack of
        Inl e \<Rightarrow> (Inl e, w)
      | Inr frame \<Rightarrow>
          if endswith (filename frame) module_filename
          then (Inl (CodeUsesForbiddenFunctions func_name), w)
          else original_func args kwargs w)"

section \<open>\<^verbatim>\<open>PreventImport\<close>: the replacement of \<^verbatim>\<open>builtins.__import__\<close>\<close>

text \<open>
  \<^verbatim>\<open>any(name.startswith(module + '.') for module in self.modules) or name in self.modules\<close>
\<close>

definition matches_forbidden :: "string list \<Rightarrow> string \<Rightarrow> bool" where
  "matches_forbidden modules name =
     (list_ex (\<lambda>module. startswith name (module @ ''.'')) modules \<or> name \<in> set modules)"

definition custom_import ::
  "string list \<Rightarrow> string \<Rightarrow> (string \<Rightarrow> ('w, 'r) operation) \<Rightarrow> frame_summary list
     \<Rightarrow> string \<Rightarrow> ('w, 'r) operation" where
  "custom_import modules module_filename original_import stack name args kwargs w =
     (if matches_forbidden modules name
      then (case index_neg2 stack of
              Inl e \<Rightarrow> (Inl e, w)
            | Inr frame \<Rightarrow>
                if endswith (filename frame) module_filename
                then (Inl (CodeImportForbiddenModule name), w)
                else original_import name args kwargs w)
      else original_import name args kwargs w)"

section \<open>Entering and leaving the guards\<close>

text \<open>
  What a guard replaces is an attribute of an owner (\<^verbatim>\<open>builtins.open\<close>, \<^verbatim>\<open>builtins.__import__\<close>,
  or the \<^verbatim>\<open>function_name\<close> of a \<^verbatim>\<open>module\<close>). The value of such an attribute is a callable
  with an identity: either one that existed before any guard was entered, or a closure that
  a guard created, which holds what it closed over.
\<close>

datatype callable =
    Original string
  | OpenWrapper "pyval list option" "pyval list option" callable
  | UponCalled string callable
  | CustomImport "string list" callable

type_synonym attr = "string \<times> string"

type_synonym env = "attr \<rightharpoonup> callable"

text \<open>
  The body of a \<^verbatim>\<open>with\<close> block runs in the environment the guard prepared, may change any
  attribute, and either returns (\<open>None\<close>) or raises (\<open>Some e\<close>).
\<close>

type_synonym body = "env \<Rightarrow> exn option \<times> env"

definition builtins_open :: attr where
  "builtins_open = (''builtins'', ''open'')"

definition builtins_import :: attr where
  "builtins_import = (''builtins'', ''__import__'')"

text \<open>
  \<^verbatim>\<open>prevent_file_open\<close>: \<^verbatim>\<open>original_open = builtins.open\<close>, \<^verbatim>\<open>builtins.open = open_wrapper\<close>,
  then the body under \<^verbatim>\<open>try\<close>, and \<^verbatim>\<open>builtins.open = original_open\<close> under \<^verbatim>\<open>finally\<close>.
\<close>

definition prevent_file_open ::
  "pyval list option \<Rightarrow> pyval list option \<Rightarrow> body \<Rightarrow> env \<Rightarrow> exn option \<times> env" where
  "prevent_file_open allowed_read_files allowed_write_files body env =
     (case env builtins_open of
        None \<Rightarrow> (Some AttributeError, env)
      | Some original_open \<Rightarrow>
          (case body (env(builtins_open \<mapsto>
                        OpenWrapper allowed_read_files allowed_write_files original_open)) of
             (outcome, env') \<Rightarrow> (outcome, env'(builtins_open \<mapsto> original_open))))"

text \<open>
  \<^verbatim>\<open>prevent_calling\<close>, the loop that installs the wrappers: \<^verbatim>\<open>getattr\<close>, append to
  \<^verbatim>\<open>original_functions\<close>, \<^verbatim>\<open>setattr\<close>. It runs before the \<^verbatim>\<open>try\<close>.
\<close>

fun install_wrappers ::
  "attr list \<Rightarrow> env \<Rightarrow> callable list \<Rightarrow> exn option \<times> env \<times> callable list" where
  "install_wrappers [] env original_functions = (None, env, original_functions)"
| "install_wrappers ((module, function_name) # rest) env original_functions =
     (case env (module, function_name) of
        None \<Rightarrow> (Some AttributeError, env, original_functions)
      | Some original_function \<Rightarrow>
          install_wrappers rest
            (env((module, function_name) \<mapsto> UponCalled function_name original_function))
            (original_functions @ [original_function]))"

text \<open>
  The loop under \<^verbatim>\<open>finally\<close>: it walks \<^verbatim>\<open>modules_and_functions\<close> from the front and sets
  each attribute to \<^verbatim>\<open>original_functions.pop(0)\<close>.
\<close>

fun restore_originals :: "attr list \<Rightarrow> callable list \<Rightarrow> env \<Rightarrow> exn option \<times> env" where
  "restore_originals [] original_functions env = (None, env)"
| "restore_originals ((module, function_name) # rest) original_functions env =
     (case original_functions of
        [] \<Rightarrow> (Some IndexError, env)
      | original_function # remaining \<Rightarrow>
          restore_originals rest remaining (env((module, function_name) \<mapsto> original_function)))"

definition prevent_calling :: "attr list option \<Rightarrow> body \<Rightarrow> env \<Rightarrow> exn option \<times> env" where
  "prevent_calling modules_and_functions body env =
     (let modules_and_functions' =
            (case modules_and_functions of None \<Rightarrow> [] | Some l \<Rightarrow> l)
      in case install_wrappers modules_and_functions' env [] of
           (Some e, env1, original_functions) \<Rightarrow> (Some e, env1)
         | (None, env1, original_functions) \<Rightarrow>
             (case body env1 of
                (outcome, env2) \<Rightarrow>
                  (case restore_originals modules_and_functions' original_functions env2 of
                     (Some e, env3) \<Rightarrow> (Some e, env3)
                   | (None, env3) \<Rightarrow> (outcome, env3))))"

text \<open>
  \<^verbatim>\<open>with PreventImport(modules)\<close>: \<^verbatim>\<open>__enter__\<close> saves \<^verbatim>\<open>builtins.__import__\<close> in
  \<^verbatim>\<open>self.original_import\<close> and installs \<^verbatim>\<open>self.custom_import\<close>; \<^verbatim>\<open>__exit__\<close> puts
  \<^verbatim>\<open>self.original_import\<close> back and returns \<^verbatim>\<open>None\<close>, so an exception of the body
  propagates.
\<close>

definition PreventImport :: "string list \<Rightarrow> body \<Rightarrow> env \<Rightarrow> exn option \<times> env" where
  "PreventImport modules body env =
     (case env builtins_import of
        None \<Rightarrow> (Some AttributeError, env)
      | Some original_import \<Rightarrow>
          (case body (env(builtins_import \<mapsto> CustomImport modules original_import)) of
             (outcome, env') \<Rightarrow> (outcome, env'(builtins_import \<mapsto> original_import))))"

section \<open>The policies of \<^verbatim>\<open>override_sklearn.py\<close>\<close>

text \<open>Python's \<^verbatim>\<open>str\<close> of an integer, as the f-strings of the messages use it.\<close>

fun str_nat :: "nat \<Rightarrow> string" where
  "str_nat n =
     (if n < 10 then [''0123456789'' ! n]
      else str_nat (n div 10) @ [''0123456789'' ! (n mod 10)])"

declare str_nat.simps [simp del]

definition str_int :: "int \<Rightarrow> string" where
  "str_int i = (if i < 0 then ''-'' @ str_nat (nat (- i)) else str_nat (nat i))"

subsection \<open>\<^verbatim>\<open>SklearnOverride\<close>\<close>

text \<open>
  Objects are references. The only attribute the wrapper reads or writes is
  \<^verbatim>\<open>_prior_fit_results\<close>: the heap maps an object to the reference stored there, if any.
  The original operation may change the heap as it likes.
\<close>

type_synonym ref = nat

record 'w heap =
  prior_fit_results :: "ref \<rightharpoonup> ref"
  other :: 'w

type_synonym ('w, 'r) bound_method = "ref \<Rightarrow> pyval list \<Rightarrow> kwargs \<Rightarrow> 'w \<Rightarrow> (exn + 'r) \<times> 'w"

definition already_called_message :: "string \<Rightarrow> string" where
  "already_called_message func_name =
     ''The `'' @ func_name @ ''` function was already called on this object. '' @
     ''Multiple calls should be avoided as the same result instance is returned again.''"

text \<open>
  \<^verbatim>\<open>SklearnOverride._get_custom_wrapper\<close>. \<open>func_name\<close> is \<^verbatim>\<open>original_func.__name__\<close>.
  \<^verbatim>\<open>self._is_called_from_data_to_paper()\<close> belongs to the base class
  \<^verbatim>\<open>SystematicMethodReplacerContext\<close>, which is not part of the sources at hand: the value
  it returns at this call is the parameter \<open>is_called_from_data_to_paper\<close>.
\<close>

definition fit_wrapped ::
  "string \<Rightarrow> ('w heap, ref) bound_method \<Rightarrow> bool \<Rightarrow> ('w heap, ref) bound_method" where
  "fit_wrapped func_name original_func is_called_from_data_to_paper obj args kwargs h =
     (case original_func obj args kwargs h of
        (Inl e, h') \<Rightarrow> (Inl e, h')
      | (Inr result, h') \<Rightarrow>
          if is_called_from_data_to_paper
          then (if prior_fit_results h' obj = Some result
                then (Inl (RuntimeWarning (already_called_message func_name)), h')
                else (Inr result,
                      h'\<lparr>prior_fit_results := (prior_fit_results h')(obj \<mapsto> result)\<rparr>))
          else (Inr result, h'))"

subsection \<open>\<^verbatim>\<open>SklearnSearchLimitCheck\<close>\<close>

text \<open>
  One entry of \<^verbatim>\<open>inspect.stack()\<close>, innermost first: whether the frame has a local
  \<^verbatim>\<open>self\<close>, and of that instance whether it has an attribute \<^verbatim>\<open>fit\<close> and the class name
  of its attribute \<^verbatim>\<open>estimator\<close>, if it has one.
\<close>

record instance_info =
  has_fit :: bool
  estimator_class_name :: "string option"

record frame_info =
  f_locals_self :: "instance_info option"

fun get_estimator_class_name :: "frame_info list \<Rightarrow> exn + string" where
  "get_estimator_class_name [] = Inr ''Unknown''"
| "get_estimator_class_name (frame_record # rest) =
     (case f_locals_self frame_record of
        None \<Rightarrow> get_estimator_class_name rest
      | Some instance \<Rightarrow>
          if has_fit instance
          then (case estimator_class_name instance of
                  None \<Rightarrow> Inl AttributeError
                | Some n \<Rightarrow> Inr n)
          else get_estimator_class_name rest)"

definition too_many_iterations_message :: "int \<Rightarrow> string \<Rightarrow> int \<Rightarrow> string" where
  "too_many_iterations_message original_len estimator_class max_iterations =
     ''The presumed total number of training iterations ('' @ str_int original_len @
     '') for '' @ estimator_class @ '' exceeds the maximum allowed iterations ('' @
     str_int max_iterations @ ''). '' @ [CHR 0x0A] @
     ''Notice that the amount of iterations is a multiplication of the numbers of '' @
     ''possible values for each parameter when using GridSearchCV or n_iter when using '' @
     ''RandomizedSearchCV. '' @ [CHR 0x0A] @
     ''use only a subset of the parameters or reduce the number of iterations.''"

definition search_limit_wrapped ::
  "int \<Rightarrow> ('w, int) bound_method \<Rightarrow> frame_info list \<Rightarrow> ('w, int) bound_method" where
  "search_limit_wrapped max_iterations original_func inspect_stack obj args kwargs w =
     (case original_func obj args kwargs w of
        (Inl e, w') \<Rightarrow> (Inl e, w')
      | (Inr original_len, w') \<Rightarrow>
          if original_len > max_iterations
          then (case get_estimator_class_name inspect_stack of
                  Inl e \<Rightarrow> (Inl e, w')
                | Inr estimator_class \<Rightarrow>
                    (Inl (RuntimeWarning
                       (too_many_iterations_message original_len estimator_class max_iterations)),
                     w'))
          else (Inr original_len, w'))"

subsection \<open>\<^verbatim>\<open>SklearnNNSizeOverride\<close>\<close>

record SklearnNNSizeOverride =
  max_layers :: int
  max_neurons_per_layer :: int

text \<open>\<^verbatim>\<open>len(x)\<close> and iteration over \<^verbatim>\<open>x\<close>; \<^verbatim>\<open>None\<close> and integers have neither.\<close>

definition py_len :: "pyval \<Rightarrow> exn + nat" where
  "py_len x =
     (case x of
        PyTuple xs \<Rightarrow> Inr (length xs)
      | PyStr s \<Rightarrow> Inr (length s)
      | _ \<Rightarrow> Inl TypeError)"

definition py_items :: "pyval \<Rightarrow> pyval list" where
  "py_items x =
     (case x of
        PyTuple xs \<Rightarrow> xs
      | PyStr s \<Rightarrow> map (\<lambda>c. PyStr [c]) s
      | _ \<Rightarrow> [])"

definition allowed_sizes_message :: "SklearnNNSizeOverride \<Rightarrow> string" where
  "allowed_sizes_message self =
     ''We only allow up to '' @ str_int (max_layers self) @ '' layers with '' @
     str_int (max_neurons_per_layer self) @ '' max neurons per layer.''"

definition too_many_layers_message :: "SklearnNNSizeOverride \<Rightarrow> nat \<Rightarrow> string" where
  "too_many_layers_message self n =
     ''The given hidden_layer_sizes ('' @ str_nat n @ '') is too large!'' @ [CHR 0x0A] @
     allowed_sizes_message self"

definition layer_too_large_message :: "SklearnNNSizeOverride \<Rightarrow> nat \<Rightarrow> string" where
  "layer_too_large_message self layer =
     ''The given hidden_layer_sizes, has a layer ('' @ str_nat layer @
     '') with too many neurons!'' @ [CHR 0x0A] @ allowed_sizes_message self"

text \<open>
  The loop \<^verbatim>\<open>for layer, layer_size in enumerate(hidden_layer_sizes)\<close> with its test
  \<^verbatim>\<open>layer_size > 50\<close>; comparing anything but a number with \<^verbatim>\<open>50\<close> is a \<^verbatim>\<open>TypeError\<close>.
\<close>

fun check_layer_sizes :: "SklearnNNSizeOverride \<Rightarrow> nat \<Rightarrow> pyval list \<Rightarrow> exn option" where
  "check_layer_sizes self layer [] = None"
| "check_layer_sizes self layer (layer_size # rest) =
     (case layer_size of
        PyInt n \<Rightarrow>
          if n > 50 then Some (RuntimeWarning (layer_too_large_message self layer))
          else check_layer_sizes self (Suc layer) rest
      | _ \<Rightarrow> Some TypeError)"

text \<open>
  \<^verbatim>\<open>SklearnNNSizeOverride._get_custom_wrapper\<close>. \<open>parent_default\<close> is the evaluation of
  \<^verbatim>\<open>parent().hidden_layer_sizes\<close>, which constructs an instance of the class through the
  \<^verbatim>\<open>__init__\<close> the class has at that moment: a parameter here, tied below. Only the
  keyword argument is looked at; a size passed by position is not.
\<close>

definition nn_size_wrapped ::
  "SklearnNNSizeOverride \<Rightarrow> ('w \<Rightarrow> (exn + pyval) \<times> 'w) \<Rightarrow> ('w, 'r) bound_method
     \<Rightarrow> ('w, 'r) bound_method" where
  "nn_size_wrapped self parent_default original_func obj args kwargs w =
     (case (case kwargs ''hidden_layer_sizes'' of
              Some v \<Rightarrow> (Inr v, w)
            | None \<Rightarrow> parent_default w) of
        (Inl e, w') \<Rightarrow> (Inl e, w')
      | (Inr hidden_layer_sizes, w') \<Rightarrow>
          (case py_len hidden_layer_sizes of
             Inl e \<Rightarrow> (Inl e, w')
           | Inr n \<Rightarrow>
               if int n > max_layers self
               then (Inl (RuntimeWarning (too_many_layers_message self n)), w')
               else (case check_layer_sizes self 0 (py_items hidden_layer_sizes) of
                       Some e \<Rightarrow> (Inl e, w')
                     | None \<Rightarrow> original_func obj args kwargs w')))"

text \<open>
  Modelled from the spec: the base class \<^verbatim>\<open>SystematicMethodReplacerContext\<close>, which installs
  the wrapper, is not part of the sources at hand; by the specification it puts
  \<^verbatim>\<open>wrapper_factory(original)\<close> in the place of every selected attribute of the class, here
  \<^verbatim>\<open>__init__\<close>. So, while the wrapper is installed, \<^verbatim>\<open>parent()\<close> inside the wrapper calls the
  wrapper again, on a new instance and with no argument. \<open>depth\<close> is the number of nested
  calls the interpreter still allows before it raises \<^verbatim>\<open>RecursionError\<close>; \<open>class_default\<close> is
  what the original constructor stores in \<^verbatim>\<open>hidden_layer_sizes\<close> when none is passed. The
  instances that \<^verbatim>\<open>parent()\<close> allocates are not part of the world: \<open>instance\<close> stands for
  any of them.
\<close>

primrec parent_hidden_layer_sizes ::
  "nat \<Rightarrow> SklearnNNSizeOverride \<Rightarrow> pyval \<Rightarrow> ('w, 'r) bound_method \<Rightarrow> ref
     \<Rightarrow> 'w \<Rightarrow> (exn + pyval) \<times> 'w" where
  "parent_hidden_layer_sizes 0 self class_default original_func instance w =
     (Inl RecursionError, w)"
| "parent_hidden_layer_sizes (Suc depth) self class_default original_func instance w =
     (case nn_size_wrapped self
             (parent_hidden_layer_sizes depth self class_default original_func instance)
             original_func instance [] Map.empty w of
        (Inl e, w') \<Rightarrow> (Inl e, w')
      | (Inr r, w') \<Rightarrow> (Inr class_default, w'))"

section \<open>Stand-ins for original operations\<close>

text \<open>
  The properties below hold for every original operation. Where one is evaluated at a
  concrete input, the original is this stand-in: it returns \<open>r\<close> and counts in the world how
  often it was invoked, so that an invocation shows.
\<close>

definition counting_operation :: "'r \<Rightarrow> (nat, 'r) operation" where
  "counting_operation r args kwargs calls = (Inr r, Suc calls)"

definition counting_import :: "'r \<Rightarrow> string \<Rightarrow> (nat, 'r) operation" where
  "counting_import r name args kwargs calls = (Inr r, Suc calls)"

text \<open>Two bodies of a \<^verbatim>\<open>with\<close> block: one returns, one raises; neither touches an attribute.\<close>

definition returning_body :: body where
  "returning_body env = (None, env)"

definition raising_body :: "exn \<Rightarrow> body" where
  "raising_body e env = (Some e, env)"

text \<open>
  Original methods of a patched class: one that returns \<open>r\<close> and counts its invocations; one
  that returns the object it is called on, as \<^verbatim>\<open>fit\<close> of a scikit-learn estimator does; one
  that returns a new object at every call, as \<^verbatim>\<open>fit_transform\<close> does (the next free
  reference is kept in \<open>other\<close>).
\<close>

definition counting_method :: "'r \<Rightarrow> (nat, 'r) bound_method" where
  "counting_method r obj args kwargs calls = (Inr r, Suc calls)"

definition returning_self_method :: "('w heap, ref) bound_method" where
  "returning_self_method obj args kwargs h = (Inr obj, h)"

definition fresh_result_method :: "(nat heap, ref) bound_method" where
  "fresh_result_method obj args kwargs h = (Inr (other h), h\<lparr>other := Suc (other h)\<rparr>)"

text \<open>
  \<^verbatim>\<open>parent().hidden_layer_sizes\<close> while the wrapper is installed, with the interpreter's
  usual limit of 1000 nested calls and the default \<^verbatim>\<open>(100,)\<close> of scikit-learn's perceptrons.
\<close>

definition installed_default ::
  "SklearnNNSizeOverride \<Rightarrow> ('w, 'r) bound_method \<Rightarrow> 'w \<Rightarrow> (exn + pyval) \<times> 'w" where
  "installed_default self original_func =
     parent_hidden_layer_sizes 1000 self (PyTuple [PyInt 100]) original_func 0"

text \<open>
  A result of \<^verbatim>\<open>inspect.stack()\<close> in which the third frame belongs to a search object over
  an \<^verbatim>\<open>SVC\<close>; a result of \<^verbatim>\<open>traceback.extract_stack()\<close> for a call made by the sandboxed
  unit \<^verbatim>\<open>script_to_run.py\<close>; the limits \<^verbatim>\<open>SklearnNNSizeOverride\<close> has by default.
\<close>

definition search_stack :: "frame_info list" where
  "search_stack =
     [\<lparr>f_locals_self = None\<rparr>,
      \<lparr>f_locals_self = Some \<lparr>has_fit = False, estimator_class_name = None\<rparr>\<rparr>,
      \<lparr>f_locals_self = Some \<lparr>has_fit = True, estimator_class_name = Some ''SVC''\<rparr>\<rparr>]"

definition unit_stack :: "frame_summary list" where
  "unit_stack =
     [\<lparr>filename = ''/runs/script_to_run.py'', lineno = 3\<rparr>,
      \<lparr>filename = ''/pkg/run_context.py'', lineno = 53\<rparr>]"

definition default_limits :: SklearnNNSizeOverride where
  "default_limits = \<lparr>max_layers = 2, max_neurons_per_layer = 50\<rparr>"

section \<open>Strings\<close>

lemma endswith_iff: "endswith s suffix \<longleftrightarrow> (\<exists>p. s = p @ suffix)"
proof
  assume "endswith s suffix"
  then have "s = take (length s - length suffix) s @ suffix"
    unfolding endswith_def by (metis append_take_drop_id)
  then show "\<exists>p. s = p @ suffix" ..
next
  assume "\<exists>p. s = p @ suffix"
  then show "endswith s suffix" unfolding endswith_def by auto
qed

lemma startswith_iff: "startswith s prefix \<longleftrightarrow> (\<exists>r. s = prefix @ r)"
proof
  assume "startswith s prefix"
  then have "s = prefix @ drop (length prefix) s"
    unfolding startswith_def by (metis append_take_drop_id)
  then show "\<exists>r. s = prefix @ r" ..
next
  assume "\<exists>r. s = prefix @ r"
  then show "startswith s prefix" unfolding startswith_def by auto
qed

lemma matches_forbidden_iff:
  "matches_forbidden modules name \<longleftrightarrow>
     (\<exists>p. p \<in> set modules \<and> (name = p \<or> (\<exists>rest. name = p @ ''.'' @ rest)))"
  unfolding matches_forbidden_def list_ex_iff startswith_iff by auto

section \<open>The intercepted open\<close>

lemma open_wrapper_reading:
  "\<not> is_opening_for_writing args kwargs \<Longrightarrow>
   open_wrapper allowed_read_files allowed_write_files original_open args kwargs w =
     (case allowed_read_files of
        None \<Rightarrow> original_open args kwargs w
      | Some files \<Rightarrow>
          if file_name_of args kwargs \<in> set files then original_open args kwargs w
          else (Inl (CodeReadForbiddenFile (file_name_of args kwargs)), w))"
  by (simp add: open_wrapper_def Let_def split: option.split)

lemma open_wrapper_writing:
  "is_opening_for_writing args kwargs \<Longrightarrow>
   open_wrapper allowed_read_files allowed_write_files original_open args kwargs w =
     (case allowed_write_files of
        None \<Rightarrow> original_open args kwargs w
      | Some files \<Rightarrow>
          if file_name_of args kwargs \<in> set files then original_open args kwargs w
          else (Inl (CodeWriteForbiddenFile (file_name_of args kwargs)), w))"
  by (simp add: open_wrapper_def Let_def split: option.split)

text \<open>
  Claim C5. Under \<^verbatim>\<open>allowed_read_files = ["a.txt"]\<close>, an open of \<^verbatim>\<open>"a.txt"\<close> that is not
  for writing is the original open: same result, same effect. An open of \<^verbatim>\<open>"b.txt"\<close>
  that is not for writing raises \<^verbatim>\<open>CodeReadForbiddenFile("b.txt")\<close> and leaves the world
  untouched, whatever the original open would have done: it is not invoked. Both hold for
  every caller, the sandboxed unit included, and for every write allow-list.
\<close>

theorem open_wrapper_read_a_txt_b_txt:
  assumes "file_name_of args kwargs = PyStr ''a.txt''"
      and "\<not> is_opening_for_writing args kwargs"
      and "file_name_of args' kwargs' = PyStr ''b.txt''"
      and "\<not> is_opening_for_writing args' kwargs'"
  shows "open_wrapper (Some [PyStr ''a.txt'']) allowed_write_files original_open args kwargs w
           = original_open args kwargs w
       \<and> open_wrapper (Some [PyStr ''a.txt'']) allowed_write_files original_open args' kwargs' w
           = (Inl (CodeReadForbiddenFile (PyStr ''b.txt'')), w)"
  using assms by (simp add: open_wrapper_reading)

text \<open>
  At \<^verbatim>\<open>open("a.txt")\<close> and \<^verbatim>\<open>open("b.txt", "r")\<close>: the first reaches the original (one
  invocation counted), the second does not (none counted).
\<close>

theorem open_wrapper_read_a_txt_b_txt_witness:
  "file_name_of [PyStr ''a.txt''] Map.empty = PyStr ''a.txt''
   \<and> \<not> is_opening_for_writing [PyStr ''a.txt''] Map.empty
   \<and> file_name_of [PyStr ''b.txt'', PyStr ''r''] Map.empty = PyStr ''b.txt''
   \<and> \<not> is_opening_for_writing [PyStr ''b.txt'', PyStr ''r''] Map.empty
   \<and> open_wrapper (Some [PyStr ''a.txt'']) (Some []) (counting_operation (7::nat))
         [PyStr ''a.txt''] Map.empty 0 = (Inr 7, 1)
   \<and> open_wrapper (Some [PyStr ''a.txt'']) (Some []) (counting_operation (7::nat))
         [PyStr ''b.txt'', PyStr ''r''] Map.empty 0
         = (Inl (CodeReadForbiddenFile (PyStr ''b.txt'')), 0)"
proof -
  have a: "file_name_of [PyStr ''a.txt''] Map.empty = PyStr ''a.txt''"
    by (simp add: file_name_of_def)
  have b: "\<not> is_opening_for_writing [PyStr ''a.txt''] Map.empty"
    by (simp add: is_opening_for_writing_def open_mode_of_def)
  have c: "file_name_of [PyStr ''b.txt'', PyStr ''r''] Map.empty = PyStr ''b.txt''"
    by (simp add: file_name_of_def)
  have d: "\<not> is_opening_for_writing [PyStr ''b.txt'', PyStr ''r''] Map.empty"
    by (simp add: is_opening_for_writing_def open_mode_of_def)
  show ?thesis
    using a b c d
      open_wrapper_read_a_txt_b_txt [OF a b c d, of "Some []" "counting_operation (7::nat)" 0]
    by (simp add: counting_operation_def)
qed




text \<open>
  Claim C10. The mode is the second positional argument, else the keyword \<^verbatim>\<open>mode\<close>, else
  \<^verbatim>\<open>'r'\<close>. The open is classified as a write exactly when the mode is one of \<^verbatim>\<open>'w'\<close>,
  \<^verbatim>\<open>'a'\<close>, \<^verbatim>\<open>'x'\<close>; so \<^verbatim>\<open>'wb'\<close>, \<^verbatim>\<open>'w+'\<close>, \<^verbatim>\<open>'a+'\<close> and \<^verbatim>\<open>'r+'\<close> are not. An open that is
  not classified as a write is decided by the read allow-list alone: the write allow-list
  does not occur in its outcome.
\<close>

theorem open_mode_classification:
  "(is_opening_for_writing args kwargs
      \<longleftrightarrow> open_mode_of args kwargs \<in> {PyStr ''w'', PyStr ''a'', PyStr ''x''})
   \<and> (length args > 1 \<longrightarrow> open_mode_of args kwargs = args ! 1)
   \<and> (length args \<le> 1 \<longrightarrow> kwargs ''mode'' = Some m \<longrightarrow> open_mode_of args kwargs = m)
   \<and> (length args \<le> 1 \<longrightarrow> kwargs ''mode'' = None \<longrightarrow> open_mode_of args kwargs = PyStr ''r'')
   \<and> (open_mode_of args kwargs \<in> {PyStr ''wb'', PyStr ''w+'', PyStr ''a+'', PyStr ''r+''}
        \<longrightarrow> \<not> is_opening_for_writing args kwargs)
   \<and> (\<not> is_opening_for_writing args kwargs \<longrightarrow>
        open_wrapper allowed_read_files allowed_write_files original_open args kwargs w
          = (case allowed_read_files of
               None \<Rightarrow> original_open args kwargs w
             | Some files \<Rightarrow>
                 if file_name_of args kwargs \<in> set files then original_open args kwargs w
                 else (Inl (CodeReadForbiddenFile (file_name_of args kwargs)), w)))"
proof -
  have 1: "is_opening_for_writing args kwargs
      \<longleftrightarrow> open_mode_of args kwargs \<in> {PyStr ''w'', PyStr ''a'', PyStr ''x''}"
    by (simp add: is_opening_for_writing_def)
  have 2: "length args > 1 \<longrightarrow> open_mode_of args kwargs = args ! 1"
    by (simp add: open_mode_of_def)
  have 3: "length args \<le> 1 \<longrightarrow> kwargs ''mode'' = Some m \<longrightarrow> open_mode_of args kwargs = m"
    by (simp add: open_mode_of_def)
  have 4: "length args \<le> 1 \<longrightarrow> kwargs ''mode'' = None \<longrightarrow> open_mode_of args kwargs = PyStr ''r''"
    by (simp add: open_mode_of_def)
  have 5: "open_mode_of args kwargs \<in> {PyStr ''wb'', PyStr ''w+'', PyStr ''a+'', PyStr ''r+''}
        \<longrightarrow> \<not> is_opening_for_writing args kwargs"
    by (auto simp add: is_opening_for_writing_def)
  note 6 = open_wrapper_reading
    [of args kwargs allowed_read_files allowed_write_files original_open w]
  show ?thesis using 1 2 3 4 5 6 by blast
qed

text \<open>
  At \<^verbatim>\<open>open("out.bin", "wb")\<close> with \<^verbatim>\<open>"out.bin"\<close> readable and nothing writable: the open
  goes through. At \<^verbatim>\<open>open("out.bin", mode="wb")\<close> with \<^verbatim>\<open>"out.bin"\<close> writable and nothing
  readable: it is refused as a read.
\<close>

theorem open_mode_classification_witness:
  "\<not> is_opening_for_writing [PyStr ''out.bin'', PyStr ''wb''] Map.empty
   \<and> open_mode_of [PyStr ''out.bin'', PyStr ''wb''] Map.empty = PyStr ''wb''
   \<and> open_wrapper (Some [PyStr ''out.bin'']) (Some []) (counting_operation (7::nat))
        [PyStr ''out.bin'', PyStr ''wb''] Map.empty 0 = (Inr 7, 1)
   \<and> open_mode_of [PyStr ''out.bin''] [''mode'' \<mapsto> PyStr ''wb''] = PyStr ''wb''
   \<and> open_wrapper (Some []) (Some [PyStr ''out.bin'']) (counting_operation (7::nat))
        [PyStr ''out.bin''] [''mode'' \<mapsto> PyStr ''wb''] 0
        = (Inl (CodeReadForbiddenFile (PyStr ''out.bin'')), 0)"
  using open_mode_classification
    [of "[PyStr ''out.bin'', PyStr ''wb'']" Map.empty PyNone "Some [PyStr ''out.bin'']"
        "Some []" "counting_operation (7::nat)" 0]
    open_mode_classification
    [of "[PyStr ''out.bin'']" "[''mode'' \<mapsto> PyStr ''wb'']" "PyStr ''wb''" "Some []"
        "Some [PyStr ''out.bin'']" "counting_operation (7::nat)" 0]
  by (simp add: counting_operation_def file_name_of_def)

section \<open>Attribution of a call by the caller's file name\<close>

lemma index_neg2_Inr: "index_neg2 xs = Inr x \<longleftrightarrow> 2 \<le> length xs \<and> x = xs ! (length xs - 2)"
  by (auto simp add: index_neg2_def)

text \<open>
  Claim C1, as the code has it. A call to a function wrapped by \<^verbatim>\<open>prevent_calling\<close>, or
  a module resolution under \<^verbatim>\<open>PreventImport\<close>, whose calling frame's file name does not
  end with \<^verbatim>\<open>module_filename\<close> is the original operation: same result, same effect,
  whatever the forbidden functions and modules are. (The intercepted open of
  \<^verbatim>\<open>prevent_file_open\<close> does not look at the caller at all.)
\<close>

theorem unattributed_call_passes_through:
  assumes "index_neg2 stack = Inr frame"
      and "\<not> endswith (filename frame) module_filename"
  shows "upon_called module_filename func_name original_func stack args kwargs w
           = original_func args kwargs w
       \<and> custom_import modules module_filename original_import stack name args' kwargs' w
           = original_import name args' kwargs' w"
  using assms by (simp add: upon_called_def custom_import_def)

text \<open>At a call from \<^verbatim>\<open>/pkg/runner.py\<close> while the unit is \<^verbatim>\<open>script_to_run.py\<close>.\<close>

theorem unattributed_call_passes_through_witness:
  "index_neg2 [\<lparr>filename = ''/pkg/runner.py'', lineno = 40\<rparr>,
               \<lparr>filename = ''/pkg/run_context.py'', lineno = 53\<rparr>]
     = Inr \<lparr>filename = ''/pkg/runner.py'', lineno = 40\<rparr>
   \<and> \<not> endswith (filename \<lparr>filename = ''/pkg/runner.py'', lineno = 40\<rparr>) ''script_to_run.py''
   \<and> upon_called ''script_to_run.py'' ''print'' (counting_operation PyNone)
        [\<lparr>filename = ''/pkg/runner.py'', lineno = 40\<rparr>,
         \<lparr>filename = ''/pkg/run_context.py'', lineno = 53\<rparr>] [PyStr ''hello''] Map.empty 0
        = (Inr PyNone, 1)
   \<and> custom_import [''os''] ''script_to_run.py'' (counting_import (7::nat))
        [\<lparr>filename = ''/pkg/runner.py'', lineno = 40\<rparr>,
         \<lparr>filename = ''/pkg/run_context.py'', lineno = 53\<rparr>] ''os'' [] Map.empty 0
        = (Inr 7, 1)"
proof -
  let ?frame = "\<lparr>filename = ''/pkg/runner.py'', lineno = 40\<rparr>"
  let ?stack = "[?frame, \<lparr>filename = ''/pkg/run_context.py'', lineno = 53\<rparr>]"
  have a: "index_neg2 ?stack = Inr ?frame"
    by (simp add: index_neg2_def)
  have b: "\<not> endswith (filename ?frame) ''script_to_run.py''"
    by (simp add: endswith_def)
  show ?thesis
    using a b
      unattributed_call_passes_through [OF a b, of "''print''" "counting_operation PyNone"
        "[PyStr ''hello'']" Map.empty 0 "[''os'']" "counting_import (7::nat)" "''os''" "[]" Map.empty]
    by (simp add: counting_operation_def counting_import_def)
qed

text \<open>
  The intercepted open takes no call stack: an open of \<^verbatim>\<open>"b.txt"\<close> under
  \<^verbatim>\<open>allowed_read_files = ["a.txt"]\<close> is refused for any caller, trusted code included,
  where the original open would have returned.
\<close>

theorem open_wrapper_intercepts_every_caller:
  "open_wrapper (Some [PyStr ''a.txt'']) None (counting_operation (7::nat))
       [PyStr ''b.txt''] Map.empty 0
     = (Inl (CodeReadForbiddenFile (PyStr ''b.txt'')), 0)
   \<and> counting_operation (7::nat) [PyStr ''b.txt''] Map.empty 0 = (Inr 7, 1)"
  by (simp add: open_wrapper_def file_name_of_def is_opening_for_writing_def open_mode_of_def
      counting_operation_def)

text \<open>
  Claim C6, as the code has it. Attribution is a suffix test on the calling frame's file
  name: the call is attributed to the sandboxed unit exactly when that file name ends with
  \<^verbatim>\<open>module_filename\<close>. A frame whose file name does not end with it is never attributed;
  a frame of another file whose path does end with it is.
\<close>

theorem attribution_is_suffix_test:
  assumes "index_neg2 stack = Inr frame"
  shows "((\<exists>p. filename frame = p @ module_filename) \<longrightarrow>
            upon_called module_filename func_name original_func stack args kwargs w
              = (Inl (CodeUsesForbiddenFunctions func_name), w)
          \<and> (matches_forbidden modules name \<longrightarrow>
               custom_import modules module_filename original_import stack name args' kwargs' w
                 = (Inl (CodeImportForbiddenModule name), w)))
       \<and> (\<not> (\<exists>p. filename frame = p @ module_filename) \<longrightarrow>
            upon_called module_filename func_name original_func stack args kwargs w
              = original_func args kwargs w
          \<and> custom_import modules module_filename original_import stack name args' kwargs' w
              = original_import name args' kwargs' w)"
proof -
  have e: "(\<exists>p. filename frame = p @ module_filename) \<longleftrightarrow> endswith (filename frame) module_filename"
    by (simp only: endswith_iff)
  show ?thesis
    unfolding e using assms by (simp add: upon_called_def custom_import_def)
qed

text \<open>At a call from the unit's own file and at a call from \<^verbatim>\<open>/pkg/runner.py\<close>.\<close>

theorem attribution_is_suffix_test_witness:
  "index_neg2 [\<lparr>filename = ''/runs/script_to_run.py'', lineno = 3\<rparr>,
               \<lparr>filename = ''/pkg/run_context.py'', lineno = 53\<rparr>]
     = Inr \<lparr>filename = ''/runs/script_to_run.py'', lineno = 3\<rparr>
   \<and> (\<exists>p. filename \<lparr>filename = ''/runs/script_to_run.py'', lineno = 3\<rparr> = p @ ''script_to_run.py'')
   \<and> upon_called ''script_to_run.py'' ''print'' (counting_operation PyNone)
        [\<lparr>filename = ''/runs/script_to_run.py'', lineno = 3\<rparr>,
         \<lparr>filename = ''/pkg/run_context.py'', lineno = 53\<rparr>] [PyStr ''hello''] Map.empty 0
        = (Inl (CodeUsesForbiddenFunctions ''print''), 0)
   \<and> index_neg2 [\<lparr>filename = ''/pkg/runner.py'', lineno = 40\<rparr>,
               \<lparr>filename = ''/pkg/run_context.py'', lineno = 53\<rparr>]
     = Inr \<lparr>filename = ''/pkg/runner.py'', lineno = 40\<rparr>
   \<and> \<not> (\<exists>p. filename \<lparr>filename = ''/pkg/runner.py'', lineno = 40\<rparr> = p @ ''script_to_run.py'')
   \<and> upon_called ''script_to_run.py'' ''print'' (counting_operation PyNone)
        [\<lparr>filename = ''/pkg/runner.py'', lineno = 40\<rparr>,
         \<lparr>filename = ''/pkg/run_context.py'', lineno = 53\<rparr>] [PyStr ''hello''] Map.empty 0
        = (Inr PyNone, 1)"
proof -
  let ?unit = "\<lparr>filename = ''/runs/script_to_run.py'', lineno = 3\<rparr>"
  let ?other = "\<lparr>filename = ''/pkg/runner.py'', lineno = 40\<rparr>"
  let ?own = "\<lparr>filename = ''/pkg/run_context.py'', lineno = 53\<rparr>"
  have a: "index_neg2 [?unit, ?own] = Inr ?unit"
    by (simp add: index_neg2_def)
  have b: "index_neg2 [?other, ?own] = Inr ?other"
    by (simp add: index_neg2_def)
  have c: "\<exists>p. filename ?unit = p @ ''script_to_run.py''"
    unfolding endswith_iff [symmetric] by (simp add: endswith_def)
  have d: "\<not> (\<exists>p. filename ?other = p @ ''script_to_run.py'')"
    unfolding endswith_iff [symmetric] by (simp add: endswith_def)
  show ?thesis
    using a b c d
      attribution_is_suffix_test [OF a, where module_filename = "''script_to_run.py''"
        and func_name = "''print''" and original_func = "counting_operation PyNone"
        and args = "[PyStr ''hello'']" and kwargs = Map.empty and w = 0
        and modules = "[''os'']" and name = "''os''"
        and original_import = "counting_import (7::nat)" and args' = "[]"
        and kwargs' = Map.empty]
      attribution_is_suffix_test [OF b, where module_filename = "''script_to_run.py''"
        and func_name = "''print''" and original_func = "counting_operation PyNone"
        and args = "[PyStr ''hello'']" and kwargs = Map.empty and w = 0
        and modules = "[''os'']" and name = "''os''"
        and original_import = "counting_import (7::nat)" and args' = "[]"
        and kwargs' = Map.empty]
    by (simp add: counting_operation_def)
qed

text \<open>
  The unit is loaded from \<^verbatim>\<open>/runs/script_to_run.py\<close>; a call from the different file
  \<^verbatim>\<open>/tests/test_script_to_run.py\<close> is attributed to it, by both guards.
\<close>

theorem attribution_false_positive:
  "''/tests/test_script_to_run.py'' \<noteq> ''/runs/script_to_run.py''
   \<and> upon_called ''script_to_run.py'' ''print'' (counting_operation PyNone)
        [\<lparr>filename = ''/tests/test_script_to_run.py'', lineno = 12\<rparr>,
         \<lparr>filename = ''/pkg/run_context.py'', lineno = 53\<rparr>] [PyStr ''hello''] Map.empty 0
        = (Inl (CodeUsesForbiddenFunctions ''print''), 0)
   \<and> custom_import [''os''] ''script_to_run.py'' (counting_import (7::nat))
        [\<lparr>filename = ''/tests/test_script_to_run.py'', lineno = 12\<rparr>,
         \<lparr>filename = ''/pkg/run_context.py'', lineno = 90\<rparr>] ''os'' [] Map.empty 0
        = (Inl (CodeImportForbiddenModule ''os''), 0)"
  by (simp add: upon_called_def custom_import_def index_neg2_def endswith_def
      matches_forbidden_def)

text \<open>
  Claim C7, as the code has it. A module resolution whose name neither equals a forbidden
  module nor starts with one followed by a dot is the underlying resolver, whatever the
  call stack. A resolution whose name does match, and whose call stack holds the calling
  frame, raises \<^verbatim>\<open>CodeImportForbiddenModule(name)\<close> without reaching the underlying resolver
  when the calling frame's file name ends with \<^verbatim>\<open>module_filename\<close>, and is the underlying
  resolver when it does not.
\<close>

theorem custom_import_raises_iff:
  "(\<not> (\<exists>p. p \<in> set modules \<and> (name = p \<or> (\<exists>rest. name = p @ ''.'' @ rest))) \<longrightarrow>
      custom_import modules module_filename original_import stack name args kwargs w
        = original_import name args kwargs w)
   \<and> ((\<exists>p. p \<in> set modules \<and> (name = p \<or> (\<exists>rest. name = p @ ''.'' @ rest)))
        \<and> 2 \<le> length stack
        \<and> (\<exists>q. filename (stack ! (length stack - 2)) = q @ module_filename) \<longrightarrow>
      custom_import modules module_filename original_import stack name args kwargs w
        = (Inl (CodeImportForbiddenModule name), w))
   \<and> ((\<exists>p. p \<in> set modules \<and> (name = p \<or> (\<exists>rest. name = p @ ''.'' @ rest)))
        \<and> 2 \<le> length stack
        \<and> \<not> (\<exists>q. filename (stack ! (length stack - 2)) = q @ module_filename) \<longrightarrow>
      custom_import modules module_filename original_import stack name args kwargs w
        = original_import name args kwargs w)"
proof -
  have m: "(\<exists>p. p \<in> set modules \<and> (name = p \<or> (\<exists>rest. name = p @ ''.'' @ rest)))
             \<longleftrightarrow> matches_forbidden modules name"
    by (simp only: matches_forbidden_iff)
  have e: "(\<exists>q. filename (stack ! (length stack - 2)) = q @ module_filename)
             \<longleftrightarrow> endswith (filename (stack ! (length stack - 2))) module_filename"
    by (simp only: endswith_iff)
  show ?thesis
    unfolding m e by (simp add: custom_import_def index_neg2_def)
qed

text \<open>
  With \<^verbatim>\<open>os\<close> and \<^verbatim>\<open>sys\<close> forbidden: \<^verbatim>\<open>ossify\<close> is resolved on a stack of one frame;
  \<^verbatim>\<open>os.path\<close> is refused from the unit's file and resolved from \<^verbatim>\<open>/pkg/runner.py\<close>.
\<close>

theorem custom_import_raises_iff_witness:
  "\<not> (\<exists>p. p \<in> set [''os'', ''sys'']
          \<and> (''ossify'' = p \<or> (\<exists>rest. ''ossify'' = p @ ''.'' @ rest)))
   \<and> custom_import [''os'', ''sys''] ''script_to_run.py'' (counting_import (7::nat))
       [\<lparr>filename = ''/pkg/run_context.py'', lineno = 90\<rparr>] ''ossify'' [] Map.empty 0
       = (Inr 7, 1)
   \<and> (\<exists>p. p \<in> set [''os'', ''sys'']
          \<and> (''os.path'' = p \<or> (\<exists>rest. ''os.path'' = p @ ''.'' @ rest)))
   \<and> (\<exists>q. ''/runs/script_to_run.py'' = q @ ''script_to_run.py'')
   \<and> custom_import [''os'', ''sys''] ''script_to_run.py'' (counting_import (7::nat))
       [\<lparr>filename = ''/runs/script_to_run.py'', lineno = 3\<rparr>,
        \<lparr>filename = ''/pkg/run_context.py'', lineno = 90\<rparr>] ''os.path'' [] Map.empty 0
       = (Inl (CodeImportForbiddenModule ''os.path''), 0)
   \<and> \<not> (\<exists>q. ''/pkg/runner.py'' = q @ ''script_to_run.py'')
   \<and> custom_import [''os'', ''sys''] ''script_to_run.py'' (counting_import (7::nat))
       [\<lparr>filename = ''/pkg/runner.py'', lineno = 40\<rparr>,
        \<lparr>filename = ''/pkg/run_context.py'', lineno = 90\<rparr>] ''os.path'' [] Map.empty 0
       = (Inr 7, 1)"
proof -
  let ?own = "\<lparr>filename = ''/pkg/run_context.py'', lineno = 90\<rparr>"
  let ?unit = "\<lparr>filename = ''/runs/script_to_run.py'', lineno = 3\<rparr>"
  let ?other = "\<lparr>filename = ''/pkg/runner.py'', lineno = 40\<rparr>"
  have m1: "\<exists>p. p \<in> set [''os'', ''sys'']
              \<and> (''os.path'' = p \<or> (\<exists>rest. ''os.path'' = p @ ''.'' @ rest))"
    by (rule exI [of _ "''os''"]) simp
  have m2: "\<not> (\<exists>p. p \<in> set [''os'', ''sys'']
              \<and> (''ossify'' = p \<or> (\<exists>rest. ''ossify'' = p @ ''.'' @ rest)))"
    by auto
  have e1: "\<exists>q. ''/runs/script_to_run.py'' = q @ ''script_to_run.py''"
    unfolding endswith_iff [symmetric] by (simp add: endswith_def)
  have e2: "\<not> (\<exists>q. ''/pkg/runner.py'' = q @ ''script_to_run.py'')"
    unfolding endswith_iff [symmetric] by (simp add: endswith_def)
  show ?thesis
    using m1 m2 e1 e2
      custom_import_raises_iff [where modules = "[''os'', ''sys'']" and name = "''ossify''"
        and module_filename = "''script_to_run.py''"
        and original_import = "counting_import (7::nat)" and stack = "[?own]"
        and args = "[]" and kwargs = Map.empty and w = 0]
      custom_import_raises_iff [where modules = "[''os'', ''sys'']" and name = "''os.path''"
        and module_filename = "''script_to_run.py''"
        and original_import = "counting_import (7::nat)" and stack = "[?unit, ?own]"
        and args = "[]" and kwargs = Map.empty and w = 0]
      custom_import_raises_iff [where modules = "[''os'', ''sys'']" and name = "''os.path''"
        and module_filename = "''script_to_run.py''"
        and original_import = "counting_import (7::nat)" and stack = "[?other, ?own]"
        and args = "[]" and kwargs = Map.empty and w = 0]
    by (simp add: counting_import_def)
qed

text \<open>
  \<^verbatim>\<open>os\<close> is forbidden and the call stack holds the frame of \<^verbatim>\<open>custom_import\<close> only: the
  resolution ends in \<^verbatim>\<open>IndexError\<close>, which is neither the guard's error nor the result of
  the underlying resolver.
\<close>

theorem custom_import_without_calling_frame:
  "custom_import [''os''] ''script_to_run.py'' (counting_import (7::nat))
       [\<lparr>filename = ''/pkg/run_context.py'', lineno = 90\<rparr>] ''os'' [] Map.empty 0
     = (Inl IndexError, 0)
   \<and> counting_import (7::nat) ''os'' [] Map.empty 0 = (Inr 7, 1)"
  by (simp add: custom_import_def matches_forbidden_def index_neg2_def counting_import_def)

section \<open>Leaving the guards\<close>

lemma prevent_file_open_restores:
  "env builtins_open = Some original_open \<Longrightarrow>
   snd (prevent_file_open allowed_read_files allowed_write_files body env) builtins_open
     = Some original_open
   \<and> fst (prevent_file_open allowed_read_files allowed_write_files body env)
     = fst (body (env(builtins_open \<mapsto>
              OpenWrapper allowed_read_files allowed_write_files original_open)))"
  by (simp add: prevent_file_open_def split: prod.split)

lemma PreventImport_restores:
  "env builtins_import = Some original_import \<Longrightarrow>
   snd (PreventImport modules body env) builtins_import = Some original_import
   \<and> fst (PreventImport modules body env)
     = fst (body (env(builtins_import \<mapsto> CustomImport modules original_import)))"
  by (simp add: PreventImport_def split: prod.split)

lemma install_wrappers_distinct:
  "distinct mfs \<Longrightarrow> set mfs \<subseteq> dom env \<Longrightarrow>
   \<exists>env'. install_wrappers mfs env originals
            = (None, env', originals @ map (\<lambda>k. the (env k)) mfs)"
proof (induction mfs arbitrary: env originals)
  case Nil
  then show ?case by simp
next
  case (Cons k mfs)
  obtain m f where k: "k = (m, f)" by (cases k)
  from Cons.prems obtain orig where orig: "env (m, f) = Some orig"
    unfolding k by auto
  let ?env1 = "env((m, f) \<mapsto> UponCalled f orig)"
  have d: "distinct mfs" and notin: "(m, f) \<notin> set mfs"
    using Cons.prems(1) unfolding k by auto
  have sub: "set mfs \<subseteq> dom ?env1" using Cons.prems(2) by auto
  from Cons.IH [OF d sub, of "originals @ [orig]"]
  obtain env' where
    e: "install_wrappers mfs ?env1 (originals @ [orig])
          = (None, env', (originals @ [orig]) @ map (\<lambda>k. the (?env1 k)) mfs)"
    by blast
  have same: "map (\<lambda>k. the (?env1 k)) mfs = map (\<lambda>k. the (env k)) mfs"
    using notin by (intro map_cong) auto
  show ?case
    unfolding k using orig e same by simp
qed

lemma map_add_upd_left_snoc:
  "m(k \<mapsto> v) ++ map_of xs = m ++ map_of (xs @ [(k, v)])"
  by (rule ext) (simp add: map_add_def split: option.split)

lemma restore_originals_eq:
  "length originals = length mfs \<Longrightarrow>
   restore_originals mfs originals env = (None, env ++ map_of (rev (zip mfs originals)))"
proof (induction mfs arbitrary: originals env)
  case Nil
  then show ?case by simp
next
  case (Cons k mfs)
  obtain m f where k: "k = (m, f)" by (cases k)
  from Cons.prems obtain orig rest where o: "originals = orig # rest" and l: "length rest = length mfs"
    by (cases originals) auto
  have "restore_originals (k # mfs) originals env
          = restore_originals mfs rest (env((m, f) \<mapsto> orig))"
    unfolding k o by simp
  also have "\<dots> = (None, env((m, f) \<mapsto> orig) ++ map_of (rev (zip mfs rest)))"
    by (rule Cons.IH [OF l])
  also have "env((m, f) \<mapsto> orig) ++ map_of (rev (zip mfs rest))
               = env ++ map_of (rev (zip mfs rest) @ [((m, f), orig)])"
    by (rule map_add_upd_left_snoc)
  also have "rev (zip mfs rest) @ [((m, f), orig)] = rev (zip (k # mfs) originals)"
    unfolding k o by simp
  finally show ?case .
qed

lemma map_of_rev_graph:
  "k \<in> set ks \<Longrightarrow> map_of (rev (zip ks (map g ks))) k = Some (g k)"
proof -
  assume k: "k \<in> set ks"
  have "rev (zip ks (map g ks)) = map (\<lambda>k. (k, g k)) (rev ks)"
    by (simp add: zip_map2 zip_same_conv_map rev_map)
  then show ?thesis using k by (simp add: map_of_map_restrict)
qed

lemma prevent_calling_restores_distinct:
  assumes "distinct mfs" and "set mfs \<subseteq> dom env" and "k \<in> set mfs"
  shows "snd (prevent_calling (Some mfs) body env) k = env k"
proof -
  from install_wrappers_distinct [OF assms(1,2), of "[]"]
  obtain env1 where i: "install_wrappers mfs env [] = (None, env1, map (\<lambda>k. the (env k)) mfs)"
    by auto
  obtain outcome env2 where b: "body env1 = (outcome, env2)" by (cases "body env1")
  have r: "restore_originals mfs (map (\<lambda>k. the (env k)) mfs) env2
             = (None, env2 ++ map_of (rev (zip mfs (map (\<lambda>k. the (env k)) mfs))))"
    by (rule restore_originals_eq) simp
  have "snd (prevent_calling (Some mfs) body env) k
          = (env2 ++ map_of (rev (zip mfs (map (\<lambda>k. the (env k)) mfs)))) k"
    by (simp add: prevent_calling_def i b r)
  also have "\<dots> = Some (the (env k))"
    using map_of_rev_graph [OF assms(3), of "\<lambda>k. the (env k)"] by (simp add: map_add_def)
  also have "\<dots> = env k" using assms(2,3) by auto
  finally show ?thesis .
qed

text \<open>
  Claim C2, at \<^verbatim>\<open>prevent_calling([(os, 'system'), (os, 'system')])\<close>. The second wrapper is
  built around the first, and the loop under \<^verbatim>\<open>finally\<close> restores front to back, so the
  last value written is the first wrapper: after the scope, \<^verbatim>\<open>os.system\<close> is not the
  function it was before, whether the body returned or raised.
\<close>

theorem prevent_calling_duplicate_not_restored:
  "snd (prevent_calling (Some [(''os'', ''system''), (''os'', ''system'')]) returning_body
          [(''os'', ''system'') \<mapsto> Original ''os.system'']) (''os'', ''system'')
     = Some (UponCalled ''system'' (Original ''os.system''))
   \<and> snd (prevent_calling (Some [(''os'', ''system''), (''os'', ''system'')])
            (raising_body (OtherError ''ValueError''))
          [(''os'', ''system'') \<mapsto> Original ''os.system'']) (''os'', ''system'')
     = Some (UponCalled ''system'' (Original ''os.system''))"
  by (simp add: prevent_calling_def returning_body_def raising_body_def)

section \<open>The size limits of \<^verbatim>\<open>SklearnNNSizeOverride\<close>\<close>

lemma nn_size_wrapped_too_many_layers:
  "kwargs ''hidden_layer_sizes'' = Some (PyTuple sizes) \<Longrightarrow>
   int (length sizes) > max_layers self \<Longrightarrow>
   nn_size_wrapped self parent_default original_func obj args kwargs w
     = (Inl (RuntimeWarning (too_many_layers_message self (length sizes))), w)"
  by (simp add: nn_size_wrapped_def py_len_def)

lemma check_layer_sizes_first_refused:
  "check_layer_sizes self i sizes = Some e \<Longrightarrow> e \<noteq> TypeError \<Longrightarrow>
   \<exists>k < length sizes.
      e = RuntimeWarning (layer_too_large_message self (i + k))
      \<and> check_layer_sizes self i (take k sizes) = None
      \<and> check_layer_sizes self (i + k) [sizes ! k] = Some e"
proof (induction sizes arbitrary: i)
  case Nil
  then show ?case by simp
next
  case (Cons x sizes)
  show ?case
  proof (cases x)
    case (PyInt n)
    show ?thesis
    proof (cases "n > 50")
      case True
      with Cons.prems PyInt have e: "e = RuntimeWarning (layer_too_large_message self i)"
        by simp
      have "0 < length (x # sizes)
          \<and> e = RuntimeWarning (layer_too_large_message self (i + 0))
          \<and> check_layer_sizes self i (take 0 (x # sizes)) = None
          \<and> check_layer_sizes self (i + 0) [(x # sizes) ! 0] = Some e"
        using e PyInt True by simp
      then show ?thesis by blast
    next
      case False
      with Cons.prems PyInt have "check_layer_sizes self (Suc i) sizes = Some e" by simp
      from Cons.IH [OF this Cons.prems(2)] obtain k where k: "k < length sizes"
        "e = RuntimeWarning (layer_too_large_message self (Suc i + k))"
        "check_layer_sizes self (Suc i) (take k sizes) = None"
        "check_layer_sizes self (Suc i + k) [sizes ! k] = Some e"
        by blast
      have "Suc k < length (x # sizes)
          \<and> e = RuntimeWarning (layer_too_large_message self (i + Suc k))
          \<and> check_layer_sizes self i (take (Suc k) (x # sizes)) = None
          \<and> check_layer_sizes self (i + Suc k) [(x # sizes) ! Suc k] = Some e"
        using k PyInt False by simp
      then show ?thesis by blast
    qed
  qed (use Cons.prems in auto)
qed

lemma nn_size_wrapped_layer_refused:
  assumes "kwargs ''hidden_layer_sizes'' = Some (PyTuple sizes)"
      and "\<not> int (length sizes) > max_layers self"
      and "check_layer_sizes self 0 sizes = Some e"
      and "e \<noteq> TypeError"
  shows "nn_size_wrapped self parent_default original_func obj args kwargs w = (Inl e, w)
         \<and> (\<exists>layer < length sizes.
               e = RuntimeWarning (layer_too_large_message self layer)
               \<and> check_layer_sizes self 0 (take layer sizes) = None
               \<and> check_layer_sizes self layer [sizes ! layer] = Some e)"
proof -
  have "nn_size_wrapped self parent_default original_func obj args kwargs w = (Inl e, w)"
    using assms(1,2,3) by (simp add: nn_size_wrapped_def py_len_def py_items_def)
  moreover have "\<exists>layer < length sizes.
               e = RuntimeWarning (layer_too_large_message self layer)
               \<and> check_layer_sizes self 0 (take layer sizes) = None
               \<and> check_layer_sizes self layer [sizes ! layer] = Some e"
    using check_layer_sizes_first_refused [OF assms(3,4)] by simp
  ultimately show ?thesis by simp
qed

text \<open>
  No size passed by keyword while the wrapper is installed: \<^verbatim>\<open>parent()\<close> enters the wrapper
  again, and again, until the interpreter gives up. The original constructor is not
  reached and no size is looked at.
\<close>

lemma parent_hidden_layer_sizes_RecursionError:
  "parent_hidden_layer_sizes depth self class_default original_func instance w
     = (Inl RecursionError, w)"
  by (induction depth) (simp_all add: nn_size_wrapped_def)

lemma nn_size_wrapped_without_keyword:
  "kwargs ''hidden_layer_sizes'' = None \<Longrightarrow>
   nn_size_wrapped self
       (parent_hidden_layer_sizes depth self class_default original_func instance)
       original_func obj args kwargs w
     = (Inl RecursionError, w)"
  by (simp add: nn_size_wrapped_def parent_hidden_layer_sizes_RecursionError)

text \<open>
  The three configurations of the specification under the default limits: \<^verbatim>\<open>(30, 40)\<close>
  reaches the original constructor, \<^verbatim>\<open>(30, 40, 10)\<close> and \<^verbatim>\<open>(30, 60)\<close> are refused before it.
\<close>

lemma nn_size_wrapped_examples:
  "nn_size_wrapped \<lparr>max_layers = 2, max_neurons_per_layer = 50\<rparr> parent_default
       (counting_method (0::nat)) 1 [] [''hidden_layer_sizes'' \<mapsto> PyTuple [PyInt 30, PyInt 40]] 0
     = (Inr 0, 1)"
  "nn_size_wrapped \<lparr>max_layers = 2, max_neurons_per_layer = 50\<rparr> parent_default
       (counting_method (0::nat)) 1 []
       [''hidden_layer_sizes'' \<mapsto> PyTuple [PyInt 30, PyInt 40, PyInt 10]] 0
     = (Inl (RuntimeWarning
          (too_many_layers_message \<lparr>max_layers = 2, max_neurons_per_layer = 50\<rparr> 3)), 0)"
  "nn_size_wrapped \<lparr>max_layers = 2, max_neurons_per_layer = 50\<rparr> parent_default
       (counting_method (0::nat)) 1 [] [''hidden_layer_sizes'' \<mapsto> PyTuple [PyInt 30, PyInt 60]] 0
     = (Inl (RuntimeWarning
          (layer_too_large_message \<lparr>max_layers = 2, max_neurons_per_layer = 50\<rparr> 1)), 0)"
  by (simp_all add: nn_size_wrapped_def py_len_def py_items_def counting_method_def
      numeral_3_eq_3)

text \<open>
  Claim C4, at limits other than the default ones. With \<^verbatim>\<open>max_neurons_per_layer = 100\<close>
  the configuration \<^verbatim>\<open>(60,)\<close> is refused, with a message that allows 100 neurons per
  layer; with \<^verbatim>\<open>max_neurons_per_layer = 10\<close> the configuration \<^verbatim>\<open>(30,)\<close> reaches the
  original constructor. The loop compares with the literal \<^verbatim>\<open>50\<close>, not with the configured
  maximum.
\<close>

theorem nn_size_wrapped_ignores_max_neurons_per_layer:
  "nn_size_wrapped \<lparr>max_layers = 2, max_neurons_per_layer = 100\<rparr> parent_default
       (counting_method (0::nat)) 1 [] [''hidden_layer_sizes'' \<mapsto> PyTuple [PyInt 60]] 0
     = (Inl (RuntimeWarning
          (layer_too_large_message \<lparr>max_layers = 2, max_neurons_per_layer = 100\<rparr> 0)), 0)
   \<and> layer_too_large_message \<lparr>max_layers = 2, max_neurons_per_layer = 100\<rparr> 0
     = ''The given hidden_layer_sizes, has a layer (0) with too many neurons!'' @ [CHR 0x0A] @
       ''We only allow up to 2 layers with 100 max neurons per layer.''
   \<and> nn_size_wrapped \<lparr>max_layers = 2, max_neurons_per_layer = 10\<rparr> parent_default
       (counting_method (0::nat)) 1 [] [''hidden_layer_sizes'' \<mapsto> PyTuple [PyInt 30]] 0
     = (Inr 0, 1)"
  by (simp add: nn_size_wrapped_def py_len_def py_items_def counting_method_def
      layer_too_large_message_def allowed_sizes_message_def str_int_def str_nat.simps)

section \<open>The reuse check of \<^verbatim>\<open>SklearnOverride\<close>\<close>

lemma fit_wrapped_not_called_from:
  "fit_wrapped func_name original_func False obj args kwargs h = original_func obj args kwargs h"
  by (simp add: fit_wrapped_def split: prod.split sum.split)

lemma fit_wrapped_same_result:
  "original_func obj args kwargs h = (Inr r, h') \<Longrightarrow> prior_fit_results h' obj = Some r \<Longrightarrow>
   fit_wrapped func_name original_func True obj args kwargs h
     = (Inl (RuntimeWarning (already_called_message func_name)), h')"
  by (simp add: fit_wrapped_def)

text \<open>
  Claim C8, as the code has it. Take two successive calls on the same object, both made by
  the sandboxed unit, the object carrying no marker after the first original call, and the
  second original call leaving the marker alone. The first call returns its result and
  stores it as the marker. The second call raises exactly when its result is the very
  instance the first call returned, and otherwise returns the new result and stores it.
  A call that is not made by the sandboxed unit is the original operation.
\<close>

theorem fit_wrapped_result_reuse:
  assumes "original_func obj args kwargs h = (Inr r, h1)"
      and "prior_fit_results h1 obj = None"
      and "original_func obj args' kwargs' (h1\<lparr>prior_fit_results := (prior_fit_results h1)(obj \<mapsto> r)\<rparr>)
             = (Inr r', h2)"
      and "prior_fit_results h2 obj = Some r"
  shows "fit_wrapped func_name original_func True obj args kwargs h
           = (Inr r, h1\<lparr>prior_fit_results := (prior_fit_results h1)(obj \<mapsto> r)\<rparr>)
       \<and> fit_wrapped func_name original_func True obj args' kwargs'
             (h1\<lparr>prior_fit_results := (prior_fit_results h1)(obj \<mapsto> r)\<rparr>)
           = (if r' = r then (Inl (RuntimeWarning (already_called_message func_name)), h2)
              else (Inr r', h2\<lparr>prior_fit_results := (prior_fit_results h2)(obj \<mapsto> r')\<rparr>))
       \<and> fit_wrapped func_name original_func False obj'' args'' kwargs'' h''
           = original_func obj'' args'' kwargs'' h''"
proof -
  have 1: "fit_wrapped func_name original_func True obj args kwargs h
           = (Inr r, h1\<lparr>prior_fit_results := (prior_fit_results h1)(obj \<mapsto> r)\<rparr>)"
    using assms(1,2) by (simp add: fit_wrapped_def)
  have 2: "fit_wrapped func_name original_func True obj args' kwargs'
             (h1\<lparr>prior_fit_results := (prior_fit_results h1)(obj \<mapsto> r)\<rparr>)
           = (if r' = r then (Inl (RuntimeWarning (already_called_message func_name)), h2)
              else (Inr r', h2\<lparr>prior_fit_results := (prior_fit_results h2)(obj \<mapsto> r')\<rparr>))"
    using assms(3,4) by (simp add: fit_wrapped_def)
  show ?thesis
    using 1 2 fit_wrapped_not_called_from [of func_name original_func obj'' args'' kwargs'' h'']
    by simp
qed

text \<open>With an original that returns the object itself: the second call raises.\<close>

theorem fit_wrapped_result_reuse_witness:
  "returning_self_method 5 [] Map.empty \<lparr>prior_fit_results = Map.empty, other = ()\<rparr>
     = (Inr 5, \<lparr>prior_fit_results = Map.empty, other = ()\<rparr>)
   \<and> returning_self_method 5 [] Map.empty \<lparr>prior_fit_results = [5 \<mapsto> 5], other = ()\<rparr>
     = (Inr 5, \<lparr>prior_fit_results = [5 \<mapsto> 5], other = ()\<rparr>)
   \<and> fit_wrapped ''fit'' returning_self_method True 5 [] Map.empty
        \<lparr>prior_fit_results = Map.empty, other = ()\<rparr>
     = (Inr 5, \<lparr>prior_fit_results = [5 \<mapsto> 5], other = ()\<rparr>)
   \<and> fit_wrapped ''fit'' returning_self_method True 5 [] Map.empty
        \<lparr>prior_fit_results = [5 \<mapsto> 5], other = ()\<rparr>
     = (Inl (RuntimeWarning (already_called_message ''fit'')),
        \<lparr>prior_fit_results = [5 \<mapsto> 5], other = ()\<rparr>)
   \<and> fit_wrapped ''fit'' returning_self_method False 5 [] Map.empty
        \<lparr>prior_fit_results = [5 \<mapsto> 5], other = ()\<rparr>
     = (Inr 5, \<lparr>prior_fit_results = [5 \<mapsto> 5], other = ()\<rparr>)"
proof -
  let ?h = "\<lparr>prior_fit_results = Map.empty, other = ()\<rparr> :: unit heap"
  let ?h1 = "\<lparr>prior_fit_results = [5 \<mapsto> 5], other = ()\<rparr> :: unit heap"
  have a: "returning_self_method 5 [] Map.empty ?h = (Inr 5, ?h)"
    by (simp add: returning_self_method_def)
  have b: "prior_fit_results ?h 5 = None" by simp
  have c: "returning_self_method 5 [] Map.empty
             (?h\<lparr>prior_fit_results := (prior_fit_results ?h)(5 \<mapsto> 5)\<rparr>) = (Inr 5, ?h1)"
    by (simp add: returning_self_method_def)
  have d: "prior_fit_results ?h1 5 = Some 5" by simp
  show ?thesis
    using a
      fit_wrapped_result_reuse [where original_func = returning_self_method and obj = 5
        and args = "[]" and kwargs = Map.empty and h = ?h and r = 5 and ?h1.0 = ?h
        and args' = "[]" and kwargs' = Map.empty and r' = 5 and ?h2.0 = ?h1
        and func_name = "''fit''" and obj'' = 5
        and args'' = "[]" and kwargs'' = Map.empty and h'' = ?h1, OF a b c d]
    by (simp add: returning_self_method_def)
qed

text \<open>
  With an original that returns a new object at every call, two calls by the sandboxed unit
  on the same object both return: the second one does not raise.
\<close>

theorem fit_wrapped_second_call_fresh_result:
  "fit_wrapped ''fit_transform'' fresh_result_method True 5 [] Map.empty
        \<lparr>prior_fit_results = Map.empty, other = 100\<rparr>
     = (Inr 100, \<lparr>prior_fit_results = [5 \<mapsto> 100], other = 101\<rparr>)
   \<and> fit_wrapped ''fit_transform'' fresh_result_method True 5 [] Map.empty
        \<lparr>prior_fit_results = [5 \<mapsto> 100], other = 101\<rparr>
     = (Inr 101, \<lparr>prior_fit_results = [5 \<mapsto> 101], other = 102\<rparr>)"
  by (simp add: fit_wrapped_def fresh_result_method_def)

section \<open>The errors that report a violation\<close>

lemma open_wrapper_forbidden_write:
  "is_opening_for_writing args kwargs \<Longrightarrow> file_name_of args kwargs \<notin> set files \<Longrightarrow>
   open_wrapper allowed_read_files (Some files) original_open args kwargs w
     = (Inl (CodeWriteForbiddenFile (file_name_of args kwargs)), w)"
  by (simp add: open_wrapper_writing)

lemma open_wrapper_forbidden_read:
  "\<not> is_opening_for_writing args kwargs \<Longrightarrow> file_name_of args kwargs \<notin> set files \<Longrightarrow>
   open_wrapper (Some files) allowed_write_files original_open args kwargs w
     = (Inl (CodeReadForbiddenFile (file_name_of args kwargs)), w)"
  by (simp add: open_wrapper_reading)

lemma upon_called_attributed:
  "index_neg2 stack = Inr frame \<Longrightarrow> endswith (filename frame) module_filename \<Longrightarrow>
   upon_called module_filename func_name original_func stack args kwargs w
     = (Inl (CodeUsesForbiddenFunctions func_name), w)"
  by (simp add: upon_called_def)

lemma custom_import_attributed:
  "index_neg2 stack = Inr frame \<Longrightarrow> endswith (filename frame) module_filename \<Longrightarrow>
   matches_forbidden modules name \<Longrightarrow>
   custom_import modules module_filename original_import stack name args kwargs w
     = (Inl (CodeImportForbiddenModule name), w)"
  by (simp add: custom_import_def)

lemma search_limit_wrapped_exceeds:
  "original_func obj args kwargs w = (Inr original_len, w') \<Longrightarrow>
   original_len > max_iterations \<Longrightarrow>
   get_estimator_class_name inspect_stack = Inr estimator_class \<Longrightarrow>
   search_limit_wrapped max_iterations original_func inspect_stack obj args kwargs w
     = (Inl (RuntimeWarning
          (too_many_iterations_message original_len estimator_class max_iterations)), w')"
  by (simp add: search_limit_wrapped_def)

lemma search_limit_wrapped_within:
  "original_func obj args kwargs w = (Inr original_len, w') \<Longrightarrow>
   \<not> original_len > max_iterations \<Longrightarrow>
   search_limit_wrapped max_iterations original_func inspect_stack obj args kwargs w
     = (Inr original_len, w')"
  by (simp add: search_limit_wrapped_def)

text \<open>
  The budgets of the specification under \<^verbatim>\<open>max_iterations = 12\<close>: a length of 10 is
  returned, a length of 13 is refused.
\<close>

lemma search_limit_wrapped_examples:
  "search_limit_wrapped 12 (counting_method (10::int)) search_stack 5 [] Map.empty 0 = (Inr 10, 1)"
  "search_limit_wrapped 12 (counting_method (13::int)) search_stack 5 [] Map.empty 0
     = (Inl (RuntimeWarning (too_many_iterations_message 13 ''SVC'' 12)), 1)"
  by (simp_all add: search_limit_wrapped_def counting_method_def search_stack_def)

text \<open>
  Claim C3, as the code has it. A forbidden write, read, call and import are raised as
  \<^verbatim>\<open>CodeWriteForbiddenFile\<close>, \<^verbatim>\<open>CodeReadForbiddenFile\<close>, \<^verbatim>\<open>CodeUsesForbiddenFunctions\<close> and
  \<^verbatim>\<open>CodeImportForbiddenModule\<close>, each carrying the file, function or module name. The other
  four are raised as the built-in \<^verbatim>\<open>RuntimeWarning\<close> and told apart by the message only: a
  result returned again, with the function name; a length above the budget, when the walk
  over the stack yields a name for the estimator, with the length, that name and the
  budget; more layers than allowed, with their number; a layer that the size test refuses
  while every layer before it passes, with the index of that layer.
\<close>

theorem violations_error_kinds:
  "(is_opening_for_writing args kwargs \<and> file_name_of args kwargs \<notin> set files \<longrightarrow>
      open_wrapper allowed_read_files (Some files) original_open args kwargs w
        = (Inl (CodeWriteForbiddenFile (file_name_of args kwargs)), w))
   \<and> (\<not> is_opening_for_writing args kwargs \<and> file_name_of args kwargs \<notin> set files \<longrightarrow>
      open_wrapper (Some files) allowed_write_files original_open args kwargs w
        = (Inl (CodeReadForbiddenFile (file_name_of args kwargs)), w))
   \<and> (index_neg2 stack = Inr frame \<and> endswith (filename frame) module_filename \<longrightarrow>
      upon_called module_filename func_name original_func stack args kwargs w
        = (Inl (CodeUsesForbiddenFunctions func_name), w))
   \<and> (index_neg2 stack = Inr frame \<and> endswith (filename frame) module_filename
        \<and> matches_forbidden modules name \<longrightarrow>
      custom_import modules module_filename original_import stack name args kwargs w
        = (Inl (CodeImportForbiddenModule name), w))
   \<and> (original_fit obj args kwargs h = (Inr r, h') \<and> prior_fit_results h' obj = Some r \<longrightarrow>
      fit_wrapped fit_name original_fit True obj args kwargs h
        = (Inl (RuntimeWarning (already_called_message fit_name)), h'))
   \<and> (original_len_func obj args kwargs w = (Inr original_len, w')
        \<and> original_len > max_iterations
        \<and> get_estimator_class_name inspect_stack = Inr estimator_class \<longrightarrow>
      search_limit_wrapped max_iterations original_len_func inspect_stack obj args kwargs w
        = (Inl (RuntimeWarning
             (too_many_iterations_message original_len estimator_class max_iterations)), w'))
   \<and> (kwargs ''hidden_layer_sizes'' = Some (PyTuple sizes)
        \<and> int (length sizes) > max_layers self \<longrightarrow>
      nn_size_wrapped self parent_default original_init obj args kwargs w
        = (Inl (RuntimeWarning (too_many_layers_message self (length sizes))), w))
   \<and> (kwargs ''hidden_layer_sizes'' = Some (PyTuple sizes)
        \<and> \<not> int (length sizes) > max_layers self
        \<and> check_layer_sizes self 0 sizes = Some e \<and> e \<noteq> TypeError \<longrightarrow>
      nn_size_wrapped self parent_default original_init obj args kwargs w = (Inl e, w)
        \<and> (\<exists>layer < length sizes.
              e = RuntimeWarning (layer_too_large_message self layer)
              \<and> check_layer_sizes self 0 (take layer sizes) = None
              \<and> check_layer_sizes self layer [sizes ! layer] = Some e))"
proof (intro conjI impI; (elim conjE)?)
  show "is_opening_for_writing args kwargs \<Longrightarrow> file_name_of args kwargs \<notin> set files \<Longrightarrow>
      open_wrapper allowed_read_files (Some files) original_open args kwargs w
        = (Inl (CodeWriteForbiddenFile (file_name_of args kwargs)), w)"
    by (rule open_wrapper_forbidden_write)
  show "\<not> is_opening_for_writing args kwargs \<Longrightarrow> file_name_of args kwargs \<notin> set files \<Longrightarrow>
      open_wrapper (Some files) allowed_write_files original_open args kwargs w
        = (Inl (CodeReadForbiddenFile (file_name_of args kwargs)), w)"
    by (rule open_wrapper_forbidden_read)
  show "index_neg2 stack = Inr frame \<Longrightarrow> endswith (filename frame) module_filename \<Longrightarrow>
      upon_called module_filename func_name original_func stack args kwargs w
        = (Inl (CodeUsesForbiddenFunctions func_name), w)"
    by (rule upon_called_attributed)
  show "index_neg2 stack = Inr frame \<Longrightarrow> endswith (filename frame) module_filename \<Longrightarrow>
      matches_forbidden modules name \<Longrightarrow>
      custom_import modules module_filename original_import stack name args kwargs w
        = (Inl (CodeImportForbiddenModule name), w)"
    by (rule custom_import_attributed)
  show "original_fit obj args kwargs h = (Inr r, h') \<Longrightarrow> prior_fit_results h' obj = Some r \<Longrightarrow>
      fit_wrapped fit_name original_fit True obj args kwargs h
        = (Inl (RuntimeWarning (already_called_message fit_name)), h')"
    by (rule fit_wrapped_same_result)
  show "original_len_func obj args kwargs w = (Inr original_len, w') \<Longrightarrow>
      original_len > max_iterations \<Longrightarrow>
      get_estimator_class_name inspect_stack = Inr estimator_class \<Longrightarrow>
      search_limit_wrapped max_iterations original_len_func inspect_stack obj args kwargs w
        = (Inl (RuntimeWarning
             (too_many_iterations_message original_len estimator_class max_iterations)), w')"
    by (rule search_limit_wrapped_exceeds)
  show "kwargs ''hidden_layer_sizes'' = Some (PyTuple sizes) \<Longrightarrow>
      int (length sizes) > max_layers self \<Longrightarrow>
      nn_size_wrapped self parent_default original_init obj args kwargs w
        = (Inl (RuntimeWarning (too_many_layers_message self (length sizes))), w)"
    by (rule nn_size_wrapped_too_many_layers)
  show "kwargs ''hidden_layer_sizes'' = Some (PyTuple sizes) \<Longrightarrow>
      \<not> int (length sizes) > max_layers self \<Longrightarrow>
      check_layer_sizes self 0 sizes = Some e \<Longrightarrow> e \<noteq> TypeError \<Longrightarrow>
      nn_size_wrapped self parent_default original_init obj args kwargs w = (Inl e, w)"
    using nn_size_wrapped_layer_refused
      [of kwargs sizes self e parent_default original_init obj args w] by simp
  show "kwargs ''hidden_layer_sizes'' = Some (PyTuple sizes) \<Longrightarrow>
      \<not> int (length sizes) > max_layers self \<Longrightarrow>
      check_layer_sizes self 0 sizes = Some e \<Longrightarrow> e \<noteq> TypeError \<Longrightarrow>
      \<exists>layer < length sizes.
         e = RuntimeWarning (layer_too_large_message self layer)
         \<and> check_layer_sizes self 0 (take layer sizes) = None
         \<and> check_layer_sizes self layer [sizes ! layer] = Some e"
    using nn_size_wrapped_layer_refused
      [of kwargs sizes self e parent_default original_init obj args w] by simp
qed

text \<open>
  At a forbidden write and a forbidden read, a call and an import from the unit's file, a
  second \<^verbatim>\<open>fit\<close>, a length of 13 against 12, and the configurations \<^verbatim>\<open>(30, 40, 10)\<close> and
  \<^verbatim>\<open>(30, 60)\<close>.
\<close>

theorem violations_error_kinds_witness:
  "is_opening_for_writing [PyStr ''out.txt'', PyStr ''w'']
       [''hidden_layer_sizes'' \<mapsto> PyTuple [PyInt 30, PyInt 40, PyInt 10]]
   \<and> open_wrapper None (Some []) (counting_operation (0::nat)) [PyStr ''out.txt'', PyStr ''w'']
       [''hidden_layer_sizes'' \<mapsto> PyTuple [PyInt 30, PyInt 40, PyInt 10]] 0
       = (Inl (CodeWriteForbiddenFile (PyStr ''out.txt'')), 0)
   \<and> \<not> is_opening_for_writing [PyStr ''b.txt'']
       [''hidden_layer_sizes'' \<mapsto> PyTuple [PyInt 30, PyInt 60]]
   \<and> open_wrapper (Some []) None (counting_operation (0::nat)) [PyStr ''b.txt'']
       [''hidden_layer_sizes'' \<mapsto> PyTuple [PyInt 30, PyInt 60]] 0
       = (Inl (CodeReadForbiddenFile (PyStr ''b.txt'')), 0)
   \<and> endswith ''/runs/script_to_run.py'' ''script_to_run.py''
   \<and> matches_forbidden [''os''] ''os.path''
   \<and> upon_called ''script_to_run.py'' ''print'' (counting_operation PyNone) unit_stack
       [PyStr ''b.txt''] [''hidden_layer_sizes'' \<mapsto> PyTuple [PyInt 30, PyInt 60]] 0
       = (Inl (CodeUsesForbiddenFunctions ''print''), 0)
   \<and> custom_import [''os''] ''script_to_run.py'' (counting_import (7::nat)) unit_stack
       ''os.path'' [PyStr ''b.txt''] [''hidden_layer_sizes'' \<mapsto> PyTuple [PyInt 30, PyInt 60]] 0
       = (Inl (CodeImportForbiddenModule ''os.path''), 0)
   \<and> fit_wrapped ''fit'' returning_self_method True 5 [PyStr ''b.txt'']
       [''hidden_layer_sizes'' \<mapsto> PyTuple [PyInt 30, PyInt 60]]
       \<lparr>prior_fit_results = [5 \<mapsto> 5], other = ()\<rparr>
       = (Inl (RuntimeWarning (already_called_message ''fit'')),
          \<lparr>prior_fit_results = [5 \<mapsto> 5], other = ()\<rparr>)
   \<and> get_estimator_class_name search_stack = Inr ''SVC''
   \<and> search_limit_wrapped 12 (counting_method (13::int)) search_stack 5 [PyStr ''b.txt'']
       [''hidden_layer_sizes'' \<mapsto> PyTuple [PyInt 30, PyInt 60]] 0
       = (Inl (RuntimeWarning (too_many_iterations_message 13 ''SVC'' 12)), 1)
   \<and> nn_size_wrapped default_limits
       (installed_default default_limits (counting_method (0::nat))) (counting_method (0::nat)) 5
       [PyStr ''out.txt'', PyStr ''w'']
       [''hidden_layer_sizes'' \<mapsto> PyTuple [PyInt 30, PyInt 40, PyInt 10]] 0
       = (Inl (RuntimeWarning (too_many_layers_message default_limits 3)), 0)
   \<and> check_layer_sizes default_limits 0 [PyInt 30, PyInt 60]
       = Some (RuntimeWarning (layer_too_large_message default_limits 1))
   \<and> nn_size_wrapped default_limits
       (installed_default default_limits (counting_method (0::nat))) (counting_method (0::nat)) 5 [PyStr ''b.txt'']
       [''hidden_layer_sizes'' \<mapsto> PyTuple [PyInt 30, PyInt 60]] 0
       = (Inl (RuntimeWarning (layer_too_large_message default_limits 1)), 0)"
  using
    violations_error_kinds [where args = "[PyStr ''out.txt'', PyStr ''w'']"
      and kwargs = "[''hidden_layer_sizes'' \<mapsto> PyTuple [PyInt 30, PyInt 40, PyInt 10]]"
      and files = "[]" and allowed_read_files = None and allowed_write_files = None
      and original_open = "counting_operation (0::nat)" and w = 0
      and stack = unit_stack
      and frame = "\<lparr>filename = ''/runs/script_to_run.py'', lineno = 3\<rparr>"
      and module_filename = "''script_to_run.py''" and func_name = "''print''"
      and original_func = "counting_operation PyNone"
      and modules = "[''os'']" and name = "''os.path''"
      and original_import = "counting_import (7::nat)"
      and original_fit = returning_self_method and obj = 5
      and h = "\<lparr>prior_fit_results = [5 \<mapsto> 5], other = ()\<rparr>"
      and h' = "\<lparr>prior_fit_results = [5 \<mapsto> 5], other = ()\<rparr>" and r = 5
      and fit_name = "''fit''"
      and original_len_func = "counting_method (13::int)" and original_len = 13 and w' = 1
      and max_iterations = 12 and inspect_stack = search_stack and estimator_class = "''SVC''"
      and sizes = "[PyInt 30, PyInt 40, PyInt 10]" and self = default_limits
      and parent_default = "installed_default default_limits (counting_method (0::nat))"
      and original_init = "counting_method (0::nat)"
      and e = TypeError]
    violations_error_kinds [where args = "[PyStr ''b.txt'']"
      and kwargs = "[''hidden_layer_sizes'' \<mapsto> PyTuple [PyInt 30, PyInt 60]]"
      and files = "[]" and allowed_read_files = None and allowed_write_files = None
      and original_open = "counting_operation (0::nat)" and w = 0
      and stack = unit_stack
      and frame = "\<lparr>filename = ''/runs/script_to_run.py'', lineno = 3\<rparr>"
      and module_filename = "''script_to_run.py''" and func_name = "''print''"
      and original_func = "counting_operation PyNone"
      and modules = "[''os'']" and name = "''os.path''"
      and original_import = "counting_import (7::nat)"
      and original_fit = returning_self_method and obj = 5
      and h = "\<lparr>prior_fit_results = [5 \<mapsto> 5], other = ()\<rparr>"
      and h' = "\<lparr>prior_fit_results = [5 \<mapsto> 5], other = ()\<rparr>" and r = 5
      and fit_name = "''fit''"
      and original_len_func = "counting_method (13::int)" and original_len = 13 and w' = 1
      and max_iterations = 12 and inspect_stack = search_stack and estimator_class = "''SVC''"
      and sizes = "[PyInt 30, PyInt 60]" and self = default_limits
      and parent_default = "installed_default default_limits (counting_method (0::nat))"
      and original_init = "counting_method (0::nat)"
      and e = "RuntimeWarning (layer_too_large_message default_limits 1)"]
  by (simp add: is_opening_for_writing_def open_mode_of_def file_name_of_def index_neg2_def
      endswith_def matches_forbidden_def startswith_def returning_self_method_def
      counting_method_def search_stack_def unit_stack_def default_limits_def numeral_3_eq_3)

text \<open>
  Four different violations, one error kind: each is a \<^verbatim>\<open>RuntimeWarning\<close> with a message.
\<close>

theorem sklearn_violations_are_RuntimeWarning:
  "nn_size_wrapped default_limits
       (installed_default default_limits (counting_method (0::nat))) (counting_method (0::nat)) 5 []
       [''hidden_layer_sizes'' \<mapsto> PyTuple [PyInt 30, PyInt 40, PyInt 10]] 0
     = (Inl (RuntimeWarning
          (''The given hidden_layer_sizes (3) is too large!'' @ [CHR 0x0A] @
           ''We only allow up to 2 layers with 50 max neurons per layer.'')), 0)
   \<and> nn_size_wrapped default_limits
       (installed_default default_limits (counting_method (0::nat))) (counting_method (0::nat)) 5 []
       [''hidden_layer_sizes'' \<mapsto> PyTuple [PyInt 30, PyInt 60]] 0
     = (Inl (RuntimeWarning
          (''The given hidden_layer_sizes, has a layer (1) with too many neurons!'' @
           [CHR 0x0A] @ ''We only allow up to 2 layers with 50 max neurons per layer.'')), 0)
   \<and> search_limit_wrapped 12 (counting_method (13::int)) search_stack 5 [] Map.empty 0
     = (Inl (RuntimeWarning (too_many_iterations_message 13 ''SVC'' 12)), 1)
   \<and> fit_wrapped ''fit'' returning_self_method True 5 [] Map.empty
       \<lparr>prior_fit_results = [5 \<mapsto> 5], other = ()\<rparr>
     = (Inl (RuntimeWarning (already_called_message ''fit'')),
        \<lparr>prior_fit_results = [5 \<mapsto> 5], other = ()\<rparr>)"
  by (simp add: nn_size_wrapped_def py_len_def py_items_def counting_method_def
      default_limits_def too_many_layers_message_def layer_too_large_message_def
      allowed_sizes_message_def str_int_def str_nat.simps search_limit_wrapped_def
      search_stack_def fit_wrapped_def returning_self_method_def)

end
